theory Spec2Isabelle
  imports Main "HOL-Library.Sublist"
begin

section \<open>count\_changes.py: totals of inserted and deleted lines over a git history\<close>

text \<open>
  The program is one straight-line script: it runs
  \<^verbatim>\<open>git log --shortstat --oneline\<close>, splits the captured standard output at
  newlines, scans every line with two regular expressions, adds what they capture to two
  counters and prints three lines. The model follows the script statement by statement.
  What the script gets from outside (the result of \<^verbatim>\<open>subprocess.run\<close>, the
  interpreter's limit on the digits of an integer conversion) is an argument of the model.
\<close>

subsection \<open>Text\<close>

text \<open>
  A Python \<^verbatim>\<open>str\<close> is a sequence of Unicode code points. A code point is a natural
  number; \<open>lit\<close> turns a literal of the theory into such a sequence.
\<close>

type_synonym codepoint = nat
type_synonym str = "codepoint list"

definition lit :: "string \<Rightarrow> str" where
  "lit s = map of_char s"

text \<open>
  The code points of the digit zero of every decimal digit system of Unicode 14.0 (general
  category Nd, the version of CPython 3.11); the nine code points after a zero are the
  digits one to nine of the same system. CPython's \<^verbatim>\<open>str.isdecimal\<close>, the class
  \<^verbatim>\<open>\d\<close> of \<^verbatim>\<open>re\<close> on a \<^verbatim>\<open>str\<close> pattern and \<^verbatim>\<open>int\<close> all read this table.
\<close>

definition decimal_zeros :: "codepoint list" where
  "decimal_zeros =
    [48, 1632, 1776, 1984, 2406, 2534, 2662, 2790, 2918, 3046, 3174, 3302, 3430, 3558,
     3664, 3792, 3872, 4160, 4240, 6112, 6160, 6470, 6608, 6784, 6800, 6992, 7088, 7232,
     7248, 42528, 43216, 43264, 43472, 43504, 43600, 44016, 65296, 66720, 68912, 69734,
     69872, 69942, 70096, 70384, 70736, 70864, 71248, 71360, 71472, 71904, 72016, 72784,
     73040, 73120, 92768, 92864, 93008, 120782, 120792, 120802, 120812, 120822, 123200,
     123632, 125264, 130032]"

definition unicode_decimal :: "codepoint \<Rightarrow> nat option" where
  "unicode_decimal c =
     map_option (\<lambda>z. c - z) (find (\<lambda>z. z \<le> c \<and> c < z + 10) decimal_zeros)"

text \<open>
  The white space of Unicode, as \<^verbatim>\<open>str.isspace\<close> and the class \<^verbatim>\<open>\s\<close> have it:
  tab to carriage return, the four separators FS, GS, RS, US, the space, NEL, the
  no-break space and the space characters beyond Latin-1.
\<close>

definition unicode_space :: "codepoint \<Rightarrow> bool" where
  "unicode_space c \<longleftrightarrow>
     (9 \<le> c \<and> c \<le> 13) \<or> (28 \<le> c \<and> c \<le> 32) \<or> c = 133 \<or> c = 160 \<or> c = 5760 \<or>
     (8192 \<le> c \<and> c \<le> 8202) \<or> c = 8232 \<or> c = 8233 \<or> c = 8239 \<or> c = 8287 \<or> c = 12288"

text \<open>\<^verbatim>\<open>sub in line\<close>: \<open>sub\<close> occurs in \<open>line\<close> as a contiguous piece.\<close>

fun contains :: "str \<Rightarrow> str \<Rightarrow> bool" where
  "contains [] sub = (sub = [])"
| "contains (c # cs) sub = (prefix sub (c # cs) \<or> contains cs sub)"

text \<open>
  \<^verbatim>\<open>s.split('\n')\<close>: the pieces between the newlines, one more than there are newlines,
  so the empty text splits into one empty line. \<open>cur\<close> is the piece being read.
\<close>

fun split_from :: "str \<Rightarrow> str \<Rightarrow> str list" where
  "split_from cur [] = [cur]"
| "split_from cur (c # cs) =
     (if c = 10 then cur # split_from [] cs else split_from (cur @ [c]) cs)"

definition split_newline :: "str \<Rightarrow> str list" where
  "split_newline s = split_from [] s"

subsection \<open>Exceptions and integer conversions\<close>

text \<open>
  The exceptions that can end this script. None is caught anywhere, so each ends the
  process with a traceback and exit status 1.
\<close>

datatype exn = FileNotFoundError | PermissionError | OSError | UnicodeDecodeError | ValueError

text \<open>
  CPython (3.11, and the security releases of 3.7 to 3.10) refuses a conversion between
  \<^verbatim>\<open>int\<close> and \<^verbatim>\<open>str\<close> in base ten with more than \<^verbatim>\<open>sys.get_int_max_str_digits()\<close>
  digits, 4300 unless configured; the value 0 switches the limit off, and an interpreter
  without the limit behaves like one at 0. The limit is the argument \<open>lim\<close> of the model.
  CPython looks at the limit only when there are more than 640 digits, the least limit
  that can be configured.
\<close>

definition over_limit :: "nat \<Rightarrow> nat \<Rightarrow> bool" where
  "over_limit lim ndigits \<longleftrightarrow> 640 < ndigits \<and> 0 < lim \<and> lim < ndigits"

definition decimal_value :: "str \<Rightarrow> nat" where
  "decimal_value ds =
     foldl (\<lambda>a c. 10 * a + (case unicode_decimal c of None \<Rightarrow> 0 | Some d \<Rightarrow> d)) 0 ds"

text \<open>
  \<^verbatim>\<open>int(s)\<close> for a text of decimal digits, which is all the script passes to it (the
  capture of \<^verbatim>\<open>(\d+)\<close>). Signs, blanks and underscores, which Python's \<^verbatim>\<open>int\<close> also
  reads, are outside this model: any other text is the ValueError of an invalid literal.
\<close>

definition py_int :: "nat \<Rightarrow> str \<Rightarrow> exn + int" where
  "py_int lim s =
     (if s = [] \<or> (\<exists>c \<in> set s. unicode_decimal c = None) then Inl ValueError
      else if over_limit lim (length s) then Inl ValueError
      else Inr (int (decimal_value s)))"

text \<open>\<^verbatim>\<open>str(n)\<close>, which the f-strings apply to the counters: decimal, a minus sign first.\<close>

function digits10 :: "nat \<Rightarrow> str" where
  "digits10 n = (if n < 10 then [48 + n] else digits10 (n div 10) @ [48 + n mod 10])"
  by pat_completeness auto
termination
  by (relation "measure id") auto

declare digits10.simps [simp del]

definition py_str :: "int \<Rightarrow> str" where
  "py_str n = (if n < 0 then 45 # digits10 (nat (- n)) else digits10 (nat n))"

definition format_int :: "nat \<Rightarrow> int \<Rightarrow> exn + str" where
  "format_int lim n =
     (if over_limit lim (length (digits10 (nat \<bar>n\<bar>))) then Inl ValueError
      else Inr (py_str n))"

subsection \<open>The regular expressions\<close>

text \<open>
  Both patterns are a sequence of items, each a character class taken once, taken one or
  more times (greedy \<^verbatim>\<open>+\<close>) or taken at most once (greedy \<^verbatim>\<open>?\<close>).
\<close>

datatype cclass = Digit | Space | Ch codepoint

datatype atom = One cclass | Plus cclass | Opt cclass

fun cmatch :: "cclass \<Rightarrow> codepoint \<Rightarrow> bool" where
  "cmatch Digit c = (unicode_decimal c \<noteq> None)"
| "cmatch Space c = unicode_space c"
| "cmatch (Ch a) c = (c = a)"

text \<open>
  The backtracking matcher of \<^verbatim>\<open>re\<close>, anchored at the start of the text. It returns
  the piece of text each item of the pattern consumed. A greedy repetition first takes
  one more character and gives it back only if the rest of the pattern then fails;
  \<open>rstar k r\<close> is the repetition of \<open>k\<close>, zero or more times, followed by \<open>r\<close>.
\<close>

fun rmatch :: "atom list \<Rightarrow> str \<Rightarrow> str list option"
  and rstar :: "cclass \<Rightarrow> atom list \<Rightarrow> str \<Rightarrow> (str \<times> str list) option" where
  "rmatch [] s = Some []"
| "rmatch (One k # r) [] = None"
| "rmatch (One k # r) (c # s) =
     (if cmatch k c then map_option ((#) [c]) (rmatch r s) else None)"
| "rmatch (Opt k # r) [] = map_option ((#) []) (rmatch r [])"
| "rmatch (Opt k # r) (c # s) =
     (if cmatch k c
      then (case rmatch r s of
              Some gs \<Rightarrow> Some ([c] # gs)
            | None \<Rightarrow> map_option ((#) []) (rmatch r (c # s)))
      else map_option ((#) []) (rmatch r (c # s)))"
| "rmatch (Plus k # r) [] = None"
| "rmatch (Plus k # r) (c # s) =
     (if cmatch k c then map_option (\<lambda>(g, gs). (c # g) # gs) (rstar k r s) else None)"
| "rstar k r [] = map_option (Pair []) (rmatch r [])"
| "rstar k r (c # s) =
     (if cmatch k c
      then (case rstar k r s of
              Some (g, gs) \<Rightarrow> Some (c # g, gs)
            | None \<Rightarrow> map_option (Pair []) (rmatch r (c # s)))
      else map_option (Pair []) (rmatch r (c # s)))"

text \<open>
  \<^verbatim>\<open>re.search\<close>: the match at the leftmost position of the text where the pattern
  matches, the end of the text included.
\<close>

fun re_search :: "atom list \<Rightarrow> str \<Rightarrow> str list option" where
  "re_search p [] = rmatch p []"
| "re_search p (c # s) =
     (case rmatch p (c # s) of Some gs \<Rightarrow> Some gs | None \<Rightarrow> re_search p s)"

text \<open>\<^verbatim>\<open>match.group(1)\<close>: in both patterns the group is the first item, \<^verbatim>\<open>(\d+)\<close>.\<close>

fun group1 :: "str list \<Rightarrow> str" where
  "group1 [] = []"
| "group1 (g # gs) = g"

definition chars :: "string \<Rightarrow> atom list" where
  "chars s = map (\<lambda>c. One (Ch (of_char c))) s"

datatype kind = INSERTIONS | DELETIONS

text \<open>
  \<^verbatim>\<open>r'(\d+)\s+insertions?\(\+\)'\<close> and \<^verbatim>\<open>r'(\d+)\s+deletions?\(-\)'\<close>.
\<close>

fun pattern :: "kind \<Rightarrow> atom list" where
  "pattern INSERTIONS =
     Plus Digit # Plus Space # chars ''insertion'' @ Opt (Ch (of_char CHR ''s'')) # chars ''(+)''"
| "pattern DELETIONS =
     Plus Digit # Plus Space # chars ''deletion'' @ Opt (Ch (of_char CHR ''s'')) # chars ''(-)''"

subsection \<open>The loop\<close>

text \<open>
  \<^verbatim>\<open>'insertions' in line or 'insertion' in line\<close>, and the same for the deletions.
\<close>

fun precheck :: "kind \<Rightarrow> str \<Rightarrow> bool" where
  "precheck INSERTIONS line \<longleftrightarrow>
     contains line (lit ''insertions'') \<or> contains line (lit ''insertion'')"
| "precheck DELETIONS line \<longleftrightarrow>
     contains line (lit ''deletions'') \<or> contains line (lit ''deletion'')"

text \<open>
  One of the two \<^verbatim>\<open>if\<close> blocks of the loop body: what it adds to its counter, if
  anything, or the exception of \<^verbatim>\<open>int\<close>.
\<close>

definition extractCount :: "nat \<Rightarrow> kind \<Rightarrow> str \<Rightarrow> exn + int option" where
  "extractCount lim k line =
     (if precheck k line
      then (case re_search (pattern k) line of
              None \<Rightarrow> Inr None
            | Some gs \<Rightarrow>
                (case py_int lim (group1 gs) of Inl e \<Rightarrow> Inl e | Inr n \<Rightarrow> Inr (Some n)))
      else Inr None)"

fun add_count :: "int \<Rightarrow> int option \<Rightarrow> int" where
  "add_count counter None = counter"
| "add_count counter (Some n) = counter + n"

text \<open>The loop body on the pair (total\_insertions, total\_deletions).\<close>

fun scan_line :: "nat \<Rightarrow> str \<Rightarrow> int \<times> int \<Rightarrow> exn + int \<times> int" where
  "scan_line lim line (total_insertions, total_deletions) =
     (case extractCount lim INSERTIONS line of
        Inl e \<Rightarrow> Inl e
      | Inr a \<Rightarrow>
          (case extractCount lim DELETIONS line of
             Inl e \<Rightarrow> Inl e
           | Inr b \<Rightarrow> Inr (add_count total_insertions a, add_count total_deletions b)))"

fun scan_lines :: "nat \<Rightarrow> str list \<Rightarrow> int \<times> int \<Rightarrow> exn + int \<times> int" where
  "scan_lines lim [] totals = Inr totals"
| "scan_lines lim (line # lines) totals =
     (case scan_line lim line totals of
        Inl e \<Rightarrow> Inl e
      | Inr totals' \<Rightarrow> scan_lines lim lines totals')"

definition aggregate :: "nat \<Rightarrow> str list \<Rightarrow> exn + int \<times> int" where
  "aggregate lim lines = scan_lines lim lines (0, 0)"

subsection \<open>The summary and the whole script\<close>

text \<open>
  What a run leaves behind: the lines written to standard output and the exception that
  ended it, if one did.
\<close>

record outcome =
  printed :: "str list"
  uncaught :: "exn option"

definition exit_status :: "outcome \<Rightarrow> nat" where
  "exit_status r = (case uncaught r of None \<Rightarrow> 0 | Some e \<Rightarrow> 1)"

text \<open>
  The three \<^verbatim>\<open>print\<close> calls. Each formats its line and then writes it, so a
  conversion that fails leaves the lines before it on standard output.
\<close>

definition report :: "nat \<Rightarrow> int \<times> int \<Rightarrow> outcome" where
  "report lim totals =
     (case totals of (total_insertions, total_deletions) \<Rightarrow>
        (case format_int lim total_insertions of
           Inl e \<Rightarrow> \<lparr>printed = [], uncaught = Some e\<rparr>
         | Inr s1 \<Rightarrow>
            (case format_int lim total_deletions of
               Inl e \<Rightarrow> \<lparr>printed = [lit ''Total insertions: '' @ s1], uncaught = Some e\<rparr>
             | Inr s2 \<Rightarrow>
                (case format_int lim (total_insertions - total_deletions) of
                   Inl e \<Rightarrow>
                     \<lparr>printed = [lit ''Total insertions: '' @ s1, lit ''Total deletions: '' @ s2],
                      uncaught = Some e\<rparr>
                 | Inr s3 \<Rightarrow>
                     \<lparr>printed = [lit ''Total insertions: '' @ s1, lit ''Total deletions: '' @ s2,
                                 lit ''Net change: '' @ s3],
                      uncaught = None\<rparr>))))"

text \<open>The script from the list of lines on: the loop, then the summary.\<close>

definition summarise :: "nat \<Rightarrow> str list \<Rightarrow> outcome" where
  "summarise lim lines =
     (case aggregate lim lines of
        Inl e \<Rightarrow> \<lparr>printed = [], uncaught = Some e\<rparr>
      | Inr totals \<Rightarrow> report lim totals)"

text \<open>
  \<^verbatim>\<open>subprocess.run([...], capture_output=True, text=True)\<close> either raises (the
  program cannot be started, its output cannot be decoded) or returns the exit status of
  git and its decoded standard output. The script passes no \<^verbatim>\<open>check=True\<close> and never
  reads \<^verbatim>\<open>result.returncode\<close> or \<^verbatim>\<open>result.stderr\<close>.
\<close>

datatype run_result = Raised exn | Completed int str

fun main :: "nat \<Rightarrow> run_result \<Rightarrow> outcome" where
  "main lim (Raised e) = \<lparr>printed = [], uncaught = Some e\<rparr>"
| "main lim (Completed returncode stdout) = summarise lim (split_newline stdout)"

subsection \<open>The notions the specification uses\<close>

text \<open>
  The texts each item of a pattern can consume, whatever the order in which a matcher
  tries them.
\<close>

fun consumes :: "atom \<Rightarrow> str \<Rightarrow> bool" where
  "consumes (One k) g \<longleftrightarrow> length g = 1 \<and> list_all (cmatch k) g"
| "consumes (Plus k) g \<longleftrightarrow> g \<noteq> [] \<and> list_all (cmatch k) g"
| "consumes (Opt k) g \<longleftrightarrow> length g \<le> 1 \<and> list_all (cmatch k) g"

text \<open>
  The shape \<^verbatim>\<open><N> insertion(s)(+)\<close>, respectively \<^verbatim>\<open><N> deletion(s)(-)\<close>:
  \<open>phrase k ds w\<close> says that \<open>w\<close> is the decimal number \<open>ds\<close>, white space, the word
  of the kind in the singular or the plural, and the sign in parentheses.
\<close>

fun word :: "kind \<Rightarrow> str" where
  "word INSERTIONS = lit ''insertion''"
| "word DELETIONS = lit ''deletion''"

fun sign :: "kind \<Rightarrow> str" where
  "sign INSERTIONS = lit ''(+)''"
| "sign DELETIONS = lit ''(-)''"

definition phrase :: "kind \<Rightarrow> str \<Rightarrow> str \<Rightarrow> bool" where
  "phrase k ds w \<longleftrightarrow>
     ds \<noteq> [] \<and> (\<forall>c \<in> set ds. unicode_decimal c \<noteq> None) \<and>
     (\<exists>ws e. ws \<noteq> [] \<and> (\<forall>c \<in> set ws. unicode_space c) \<and> (e = [] \<or> e = lit ''s'') \<and>
        w = ds @ ws @ word k @ e @ sign k)"

text \<open>A phrase with the number \<open>ds\<close> starts at index \<open>j\<close> of the line.\<close>

definition phrase_at :: "kind \<Rightarrow> str \<Rightarrow> nat \<Rightarrow> str \<Rightarrow> bool" where
  "phrase_at k line j ds \<longleftrightarrow>
     j \<le> length line \<and> (\<exists>w post. phrase k ds w \<and> drop j line = w @ post)"

definition stat_shape :: "kind \<Rightarrow> str \<Rightarrow> bool" where
  "stat_shape k line \<longleftrightarrow> (\<exists>j ds. phrase_at k line j ds)"

text \<open>
  The script as the specification's open question proposes to reimplement it: the same
  loop with the pattern match alone, the substring test left out.
\<close>

definition extractCount_nocheck :: "nat \<Rightarrow> kind \<Rightarrow> str \<Rightarrow> exn + int option" where
  "extractCount_nocheck lim k line =
     (case re_search (pattern k) line of
        None \<Rightarrow> Inr None
      | Some gs \<Rightarrow>
          (case py_int lim (group1 gs) of Inl e \<Rightarrow> Inl e | Inr n \<Rightarrow> Inr (Some n)))"

fun scan_line_nocheck :: "nat \<Rightarrow> str \<Rightarrow> int \<times> int \<Rightarrow> exn + int \<times> int" where
  "scan_line_nocheck lim line (total_insertions, total_deletions) =
     (case extractCount_nocheck lim INSERTIONS line of
        Inl e \<Rightarrow> Inl e
      | Inr a \<Rightarrow>
          (case extractCount_nocheck lim DELETIONS line of
             Inl e \<Rightarrow> Inl e
           | Inr b \<Rightarrow> Inr (add_count total_insertions a, add_count total_deletions b)))"

fun scan_lines_nocheck :: "nat \<Rightarrow> str list \<Rightarrow> int \<times> int \<Rightarrow> exn + int \<times> int" where
  "scan_lines_nocheck lim [] totals = Inr totals"
| "scan_lines_nocheck lim (line # lines) totals =
     (case scan_line_nocheck lim line totals of
        Inl e \<Rightarrow> Inl e
      | Inr totals' \<Rightarrow> scan_lines_nocheck lim lines totals')"

fun main_nocheck :: "nat \<Rightarrow> run_result \<Rightarrow> outcome" where
  "main_nocheck lim (Raised e) = \<lparr>printed = [], uncaught = Some e\<rparr>"
| "main_nocheck lim (Completed returncode stdout) =
     (case scan_lines_nocheck lim (split_newline stdout) (0, 0) of
        Inl e \<Rightarrow> \<lparr>printed = [], uncaught = Some e\<rparr>
      | Inr totals \<Rightarrow> report lim totals)"

text \<open>The component-wise sum of two pairs of totals; an exception on either side wins.\<close>

fun add_totals :: "exn + int \<times> int \<Rightarrow> exn + int \<times> int \<Rightarrow> exn + int \<times> int" where
  "add_totals (Inl e) y = Inl e"
| "add_totals (Inr x) (Inl e) = Inl e"
| "add_totals (Inr (a, b)) (Inr (c, d)) = Inr (a + c, b + d)"

definition sum_totals :: "(exn + int \<times> int) list \<Rightarrow> exn + int \<times> int" where
  "sum_totals rs = foldr add_totals rs (Inr (0, 0))"

text \<open>
  The values the pair of counters takes while the loop runs from \<open>(total_insertions,
  total_deletions)\<close>: one after each of the two \<^verbatim>\<open>if\<close> blocks of every line, up to
  the exception if there is one.
\<close>

fun counter_states :: "nat \<Rightarrow> str list \<Rightarrow> int \<times> int \<Rightarrow> (int \<times> int) list" where
  "counter_states lim [] (total_insertions, total_deletions) = []"
| "counter_states lim (line # lines) (total_insertions, total_deletions) =
     (case extractCount lim INSERTIONS line of
        Inl e \<Rightarrow> []
      | Inr a \<Rightarrow>
          (add_count total_insertions a, total_deletions) #
          (case extractCount lim DELETIONS line of
             Inl e \<Rightarrow> []
           | Inr b \<Rightarrow>
               (add_count total_insertions a, add_count total_deletions b) #
               counter_states lim lines
                 (add_count total_insertions a, add_count total_deletions b)))"

text \<open>
  The invocation of git failed: \<^verbatim>\<open>subprocess.run\<close> raised, or git ran and reported
  a failure by its exit status (128 outside a repository).
\<close>

fun invocation_failed :: "run_result \<Rightarrow> bool" where
  "invocation_failed (Raised e) = True"
| "invocation_failed (Completed returncode stdout) = (returncode \<noteq> 0)"

section \<open>The matcher against the shape of a pattern\<close>

lemma rmatch_sound_aux:
  "(\<forall>gs. rmatch p s = Some gs \<longrightarrow> list_all2 consumes p gs \<and> prefix (concat gs) s)"
  "(\<forall>g gs. rstar k r s' = Some (g, gs) \<longrightarrow>
      list_all (cmatch k) g \<and> list_all2 consumes r gs \<and> prefix (g @ concat gs) s')"
  by (induction p s and k r s' rule: rmatch_rstar.induct)
     (auto split: if_splits option.splits, blast)

lemma rmatch_sound:
  "rmatch p s = Some gs \<Longrightarrow> list_all2 consumes p gs \<and> prefix (concat gs) s"
  using rmatch_sound_aux(1) by blast

lemma length_le1: "length g \<le> Suc 0 \<longleftrightarrow> g = [] \<or> (\<exists>c. g = [c])"
  by (cases g) auto

lemma length_eq1: "length g = Suc 0 \<longleftrightarrow> (\<exists>c. g = [c])"
  by (cases g) auto

lemma prefix_append_Cons:
  "prefix (g @ t) (c # s) \<longleftrightarrow>
     (g = [] \<and> prefix t (c # s)) \<or> (\<exists>g'. g = c # g' \<and> prefix (g' @ t) s)"
  by (cases g) auto

lemma rmatch_complete_aux:
  "(\<forall>gs. list_all2 consumes p gs \<and> prefix (concat gs) s \<longrightarrow> rmatch p s \<noteq> None)"
  "(\<forall>g gs. list_all (cmatch k) g \<and> list_all2 consumes r gs \<and> prefix (g @ concat gs) s'
      \<longrightarrow> rstar k r s' \<noteq> None)"
  apply (induction p s and k r s' rule: rmatch_rstar.induct)
  apply (auto simp: list_all2_Cons1 length_le1 length_eq1 prefix_append_Cons split: if_splits option.splits)
  apply blast+
  done

lemma rmatch_complete:
  "list_all2 consumes p gs \<Longrightarrow> prefix (concat gs) s \<Longrightarrow> rmatch p s \<noteq> None"
  using rmatch_complete_aux(1) by blast

lemma re_search_None_iff:
  "re_search p s = None \<longleftrightarrow> (\<forall>j < Suc (length s). rmatch p (drop j s) = None)"
proof (induction s)
  case Nil
  then show ?case by simp
next
  case (Cons c s)
  have "re_search p (c # s) = None \<longleftrightarrow> rmatch p (c # s) = None \<and> re_search p s = None"
    by (simp split: option.splits)
  also have "\<dots> \<longleftrightarrow> (\<forall>j < Suc (length (c # s)). rmatch p (drop j (c # s)) = None)"
    unfolding Cons.IH by (subst (2) All_less_Suc2) simp
  finally show ?case .
qed

lemma re_search_Some:
  "re_search p s = Some gs \<Longrightarrow>
     \<exists>j \<le> length s. rmatch p (drop j s) = Some gs \<and> (\<forall>i < j. rmatch p (drop i s) = None)"
proof (induction s)
  case Nil
  then show ?case by simp
next
  case (Cons c s)
  show ?case
  proof (cases "rmatch p (c # s)")
    case (Some a)
    with Cons.prems have "rmatch p (drop 0 (c # s)) = Some gs" by simp
    then show ?thesis by blast
  next
    case None
    with Cons.prems have "re_search p s = Some gs" by simp
    from Cons.IH [OF this] obtain j where j: "j \<le> length s" "rmatch p (drop j s) = Some gs"
      "\<forall>i < j. rmatch p (drop i s) = None" by blast
    have "\<forall>i < Suc j. rmatch p (drop i (c # s)) = None"
      using None j(3) by (subst All_less_Suc2) simp
    with j(1,2) show ?thesis
      by (intro exI [of _ "Suc j"]) simp
  qed
qed

lemma re_search_leftmost:
  "j \<le> length s \<Longrightarrow> rmatch p (drop j s) = Some gs \<Longrightarrow>
   (\<forall>i < j. rmatch p (drop i s) = None) \<Longrightarrow> re_search p s = Some gs"
proof (induction s arbitrary: j)
  case Nil
  then show ?case by simp
next
  case (Cons c s)
  show ?case
  proof (cases j)
    case 0
    with Cons.prems show ?thesis by simp
  next
    case (Suc j')
    with Cons.prems have "rmatch p (c # s) = None" by fastforce
    moreover have "re_search p s = Some gs"
    proof (rule Cons.IH [of j'])
      show "j' \<le> length s" using Cons.prems(1) Suc by simp
      show "rmatch p (drop j' s) = Some gs" using Cons.prems(2) Suc by simp
      show "\<forall>i<j'. rmatch p (drop i s) = None"
        using Cons.prems(3) Suc by (metis Suc_less_eq drop_Suc_Cons)
    qed
    ultimately show ?thesis by simp
  qed
qed

lemma concat_singletons: "concat (map (\<lambda>c. [c]) w) = w"
  by (induction w) auto

lemma consumes_chars:
  "list_all2 consumes (chars w @ r) gs \<longleftrightarrow>
     (\<exists>gs'. gs = map (\<lambda>c. [c]) (lit w) @ gs' \<and> list_all2 consumes r gs')"
proof (induction w arbitrary: gs)
  case Nil
  then show ?case by (simp add: chars_def lit_def)
next
  case (Cons a w)
  have "list_all2 consumes (chars (a # w) @ r) gs \<longleftrightarrow>
        (\<exists>g gs1. gs = g # gs1 \<and> g = [of_char a] \<and> list_all2 consumes (chars w @ r) gs1)"
    by (auto simp: chars_def list_all2_Cons1 length_eq1)
  then show ?case
    unfolding Cons.IH by (auto simp: lit_def)
qed

lemma consumes_chars_end:
  "list_all2 consumes (chars w) gs \<longleftrightarrow> gs = map (\<lambda>c. [c]) (lit w)"
  using consumes_chars [of w "[]" gs] by simp

lemma pattern_consumes:
  "list_all2 consumes (pattern k) gs \<longleftrightarrow>
     (\<exists>ds ws e. gs = ds # ws # map (\<lambda>c. [c]) (word k) @ e # map (\<lambda>c. [c]) (sign k) \<and>
        ds \<noteq> [] \<and> (\<forall>c \<in> set ds. unicode_decimal c \<noteq> None) \<and>
        ws \<noteq> [] \<and> (\<forall>c \<in> set ws. unicode_space c) \<and> (e = [] \<or> e = lit ''s''))"
  by (cases k)
     (auto simp: list_all2_Cons1 consumes_chars consumes_chars_end length_le1 list_all_iff lit_def)

lemma rmatch_pattern_Some:
  assumes "rmatch (pattern k) s = Some gs"
  shows "\<exists>w post. phrase k (group1 gs) w \<and> s = w @ post"
proof -
  from rmatch_sound [OF assms] have c: "list_all2 consumes (pattern k) gs"
    and p: "prefix (concat gs) s" by simp_all
  from c obtain ds ws e where gs: "gs = ds # ws # map (\<lambda>c. [c]) (word k) @ e # map (\<lambda>c. [c]) (sign k)"
    and ok: "ds \<noteq> []" "\<forall>c \<in> set ds. unicode_decimal c \<noteq> None" "ws \<noteq> []"
      "\<forall>c \<in> set ws. unicode_space c" "e = [] \<or> e = lit ''s''"
    unfolding pattern_consumes by blast
  have "concat gs = ds @ ws @ word k @ e @ sign k"
    by (simp add: gs concat_singletons)
  with ok have "phrase k (group1 gs) (concat gs)"
    unfolding phrase_def gs by auto
  with p show ?thesis
    by (auto simp: prefix_def)
qed

lemma rmatch_pattern_complete:
  assumes "phrase k ds w"
  shows "rmatch (pattern k) (w @ post) \<noteq> None"
proof -
  from assms obtain ws e where ok: "ds \<noteq> []" "\<forall>c \<in> set ds. unicode_decimal c \<noteq> None" "ws \<noteq> []"
      "\<forall>c \<in> set ws. unicode_space c" "e = [] \<or> e = lit ''s''" and w: "w = ds @ ws @ word k @ e @ sign k"
    unfolding phrase_def by blast
  let ?gs = "ds # ws # map (\<lambda>c. [c]) (word k) @ e # map (\<lambda>c. [c]) (sign k)"
  have "list_all2 consumes (pattern k) ?gs"
    unfolding pattern_consumes using ok by blast
  moreover have "prefix (concat ?gs) (w @ post)"
    by (simp add: w concat_singletons)
  ultimately show ?thesis by (rule rmatch_complete)
qed

section \<open>Substrings and the pre-check\<close>

lemma contains_sublist: "contains line sub \<longleftrightarrow> sublist sub line"
  by (induction line) (auto simp: sublist_Cons_right)

lemma contains_iff: "contains line sub \<longleftrightarrow> (\<exists>pre post. line = pre @ sub @ post)"
  by (simp add: contains_sublist sublist_def)

lemma contains_append_left: "contains line (a @ b) \<Longrightarrow> contains line a"
proof -
  assume "contains line (a @ b)"
  then obtain pre post where "line = pre @ a @ (b @ post)"
    unfolding contains_iff by auto
  then show ?thesis
    unfolding contains_iff by blast
qed

lemma lit_plural:
  "lit ''insertions'' = lit ''insertion'' @ lit ''s''"
  "lit ''deletions'' = lit ''deletion'' @ lit ''s''"
  by (simp_all add: lit_def)

lemma precheck_word: "precheck k line \<longleftrightarrow> contains line (word k)"
proof (cases k)
  case INSERTIONS
  have "contains line (lit ''insertions'') \<Longrightarrow> contains line (lit ''insertion'')"
    unfolding lit_plural by (rule contains_append_left)
  with INSERTIONS show ?thesis by (simp only: precheck.simps word.simps) blast
next
  case DELETIONS
  have "contains line (lit ''deletions'') \<Longrightarrow> contains line (lit ''deletion'')"
    unfolding lit_plural by (rule contains_append_left)
  with DELETIONS show ?thesis by (simp only: precheck.simps word.simps) blast
qed

lemma phrase_contains_word:
  assumes "phrase k ds w"
  shows "contains (pre @ w @ post) (word k)"
proof -
  from assms obtain ws e where "w = ds @ ws @ word k @ e @ sign k"
    unfolding phrase_def by blast
  then have "pre @ w @ post = (pre @ ds @ ws) @ word k @ (e @ sign k @ post)"
    by simp
  then show ?thesis
    unfolding contains_iff by blast
qed

lemma phrase_at_precheck:
  assumes "phrase_at k line j ds"
  shows "precheck k line"
proof -
  from assms obtain w post where "phrase k ds w" "drop j line = w @ post"
    unfolding phrase_at_def by blast
  then have "contains (take j line @ w @ post) (word k)"
    using phrase_contains_word by blast
  moreover have "take j line @ w @ post = line"
    using \<open>drop j line = w @ post\<close> by (metis append_take_drop_id)
  ultimately show ?thesis
    by (simp add: precheck_word)
qed

section \<open>Search and shape\<close>

lemma re_search_phrase_at:
  assumes "re_search (pattern k) line = Some gs"
  shows "\<exists>j. phrase_at k line j (group1 gs) \<and> rmatch (pattern k) (drop j line) = Some gs \<and>
           (\<forall>i < j. rmatch (pattern k) (drop i line) = None)"
proof -
  from re_search_Some [OF assms] obtain j where j: "j \<le> length line"
    "rmatch (pattern k) (drop j line) = Some gs"
    "\<forall>i < j. rmatch (pattern k) (drop i line) = None" by blast
  from rmatch_pattern_Some [OF j(2)] obtain w post
    where "phrase k (group1 gs) w" "drop j line = w @ post" by blast
  with j(1) have "phrase_at k line j (group1 gs)"
    unfolding phrase_at_def by blast
  with j(2,3) show ?thesis by blast
qed

lemma phrase_at_rmatch:
  assumes "phrase_at k line j ds"
  shows "rmatch (pattern k) (drop j line) \<noteq> None"
proof -
  from assms obtain w post where w: "phrase k ds w" and d: "drop j line = w @ post"
    unfolding phrase_at_def by blast
  from rmatch_pattern_complete [OF w] show ?thesis
    unfolding d .
qed

lemma stat_shape_iff: "stat_shape k line \<longleftrightarrow> re_search (pattern k) line \<noteq> None"
proof
  assume "stat_shape k line"
  then obtain j ds where p: "phrase_at k line j ds"
    unfolding stat_shape_def by blast
  then have "j \<le> length line"
    unfolding phrase_at_def by (rule conjunct1)
  then have j: "j < Suc (length line)"
    by (rule le_imp_less_Suc)
  have m: "rmatch (pattern k) (drop j line) \<noteq> None"
    using p by (rule phrase_at_rmatch)
  show "re_search (pattern k) line \<noteq> None"
  proof
    assume "re_search (pattern k) line = None"
    then have "\<forall>j < Suc (length line). rmatch (pattern k) (drop j line) = None"
      by (simp only: re_search_None_iff)
    with j have "rmatch (pattern k) (drop j line) = None" by blast
    with m show False by (rule notE)
  qed
next
  assume "re_search (pattern k) line \<noteq> None"
  then obtain gs where "re_search (pattern k) line = Some gs"
    by (cases "re_search (pattern k) line") simp_all
  from re_search_phrase_at [OF this] obtain j where "phrase_at k line j (group1 gs)"
    by blast
  then show "stat_shape k line"
    unfolding stat_shape_def by blast
qed

lemma re_search_precheck:
  assumes "re_search (pattern k) line = Some gs"
  shows "precheck k line"
proof -
  from re_search_phrase_at [OF assms] obtain j where "phrase_at k line j (group1 gs)"
    by blast
  then show ?thesis by (rule phrase_at_precheck)
qed

lemma extractCount_nocheck_eq: "extractCount lim k line = extractCount_nocheck lim k line"
proof (cases "re_search (pattern k) line")
  case None
  then show ?thesis by (simp add: extractCount_def extractCount_nocheck_def)
next
  case (Some gs)
  then have "precheck k line" by (rule re_search_precheck)
  then show ?thesis by (simp add: extractCount_def extractCount_nocheck_def)
qed

lemma scan_line_nocheck_eq: "scan_line lim line t = scan_line_nocheck lim line t"
proof (cases t)
  case (Pair ti td)
  show ?thesis
    unfolding Pair scan_line.simps scan_line_nocheck.simps extractCount_nocheck_eq ..
qed

lemma scan_lines_nocheck_eq: "scan_lines lim lines t = scan_lines_nocheck lim lines t"
proof (induction lines arbitrary: t)
  case Nil
  show ?case by simp
next
  case (Cons line lines)
  show ?case
    by (cases "scan_line_nocheck lim line t") (simp_all add: scan_line_nocheck_eq Cons.IH)
qed

lemma main_nocheck_eq: "main lim r = main_nocheck lim r"
proof (cases r)
  case (Raised e)
  then show ?thesis by simp
next
  case (Completed returncode stdout)
  then show ?thesis
    by (simp add: summarise_def aggregate_def scan_lines_nocheck_eq)
qed

section \<open>Evaluation on concrete texts\<close>

lemma unicode_decimal_low:
  "c < 1632 \<Longrightarrow> unicode_decimal c = (if 48 \<le> c \<and> c < 58 then Some (c - 48) else None)"
  by (simp add: unicode_decimal_def decimal_zeros_def)

lemma digits10_small: "n < 10 \<Longrightarrow> digits10 n = [48 + n]"
  by (simp add: digits10.simps)

lemma digits10_large: "\<not> n < 10 \<Longrightarrow> digits10 n = digits10 (n div 10) @ [48 + n mod 10]"
  by (subst digits10.simps) simp

lemmas run_simps =
  aggregate_def summarise_def report_def extractCount_def py_int_def over_limit_def
  decimal_value_def format_int_def py_str_def lit_def chars_def unicode_decimal_low
  unicode_space_def split_newline_def digits10_small digits10_large

section \<open>The scenarios of the specification\<close>

text \<open>
  C2. Scenario A: for the report of the two lines \<^verbatim>\<open>abc123 msg\<close> and
  \<^verbatim>\<open> 1 file changed, 5 insertions(+), 2 deletions(-)\<close> the loop ends with the
  totals 5 and 2, and the script writes exactly the three lines
  \<^verbatim>\<open>Total insertions: 5\<close>, \<^verbatim>\<open>Total deletions: 2\<close>, \<^verbatim>\<open>Net change: 3\<close> and ends
  without an exception. This holds from the list of lines on, and for the standard
  output of git that splits into these two lines, whatever git's exit status and the
  interpreter's digit limit.
\<close>

theorem scenario_A:
  "aggregate lim [lit ''abc123 msg'', lit '' 1 file changed, 5 insertions(+), 2 deletions(-)'']
     = Inr (5, 2) \<and>
   summarise lim [lit ''abc123 msg'', lit '' 1 file changed, 5 insertions(+), 2 deletions(-)'']
     = \<lparr>printed = [lit ''Total insertions: 5'', lit ''Total deletions: 2'', lit ''Net change: 3''],
        uncaught = None\<rparr> \<and>
   main lim (Completed returncode
       (lit ''abc123 msg'' @ [10] @ lit '' 1 file changed, 5 insertions(+), 2 deletions(-)''))
     = \<lparr>printed = [lit ''Total insertions: 5'', lit ''Total deletions: 2'', lit ''Net change: 3''],
        uncaught = None\<rparr>"
  by (simp add: run_simps)

theorem scenario_A_witness:
  "aggregate 4300 [lit ''abc123 msg'', lit '' 1 file changed, 5 insertions(+), 2 deletions(-)'']
     = Inr (5, 2) \<and>
   summarise 4300 [lit ''abc123 msg'', lit '' 1 file changed, 5 insertions(+), 2 deletions(-)'']
     = \<lparr>printed = [lit ''Total insertions: 5'', lit ''Total deletions: 2'', lit ''Net change: 3''],
        uncaught = None\<rparr> \<and>
   main 4300 (Completed 0
       (lit ''abc123 msg'' @ [10] @ lit '' 1 file changed, 5 insertions(+), 2 deletions(-)''))
     = \<lparr>printed = [lit ''Total insertions: 5'', lit ''Total deletions: 2'', lit ''Net change: 3''],
        uncaught = None\<rparr>"
  by (rule scenario_A)

text \<open>
  C8. Scenarios D and E: the empty report gives the totals 0 and 0 and the summary with
  three zeros, without an exception. So does the empty standard output of git, which
  \<^verbatim>\<open>split\<close> turns into the report of one empty line (not into the empty report), and
  so does a report that is only the header line \<^verbatim>\<open>abc123 msg\<close>.
\<close>

theorem scenarios_D_E:
  "aggregate lim [] = Inr (0, 0) \<and>
   summarise lim []
     = \<lparr>printed = [lit ''Total insertions: 0'', lit ''Total deletions: 0'', lit ''Net change: 0''],
        uncaught = None\<rparr> \<and>
   split_newline [] = [[]] \<and>
   aggregate lim [[]] = Inr (0, 0) \<and>
   main lim (Completed returncode [])
     = \<lparr>printed = [lit ''Total insertions: 0'', lit ''Total deletions: 0'', lit ''Net change: 0''],
        uncaught = None\<rparr> \<and>
   aggregate lim [lit ''abc123 msg''] = Inr (0, 0) \<and>
   summarise lim [lit ''abc123 msg'']
     = \<lparr>printed = [lit ''Total insertions: 0'', lit ''Total deletions: 0'', lit ''Net change: 0''],
        uncaught = None\<rparr> \<and>
   main lim (Completed returncode (lit ''abc123 msg''))
     = \<lparr>printed = [lit ''Total insertions: 0'', lit ''Total deletions: 0'', lit ''Net change: 0''],
        uncaught = None\<rparr>"
  by (simp add: run_simps)

theorem scenarios_D_E_witness:
  "aggregate 4300 [] = Inr (0, 0) \<and>
   summarise 4300 []
     = \<lparr>printed = [lit ''Total insertions: 0'', lit ''Total deletions: 0'', lit ''Net change: 0''],
        uncaught = None\<rparr> \<and>
   split_newline [] = [[]] \<and>
   aggregate 4300 [[]] = Inr (0, 0) \<and>
   main 4300 (Completed 0 [])
     = \<lparr>printed = [lit ''Total insertions: 0'', lit ''Total deletions: 0'', lit ''Net change: 0''],
        uncaught = None\<rparr> \<and>
   aggregate 4300 [lit ''abc123 msg''] = Inr (0, 0) \<and>
   summarise 4300 [lit ''abc123 msg'']
     = \<lparr>printed = [lit ''Total insertions: 0'', lit ''Total deletions: 0'', lit ''Net change: 0''],
        uncaught = None\<rparr> \<and>
   main 4300 (Completed 0 (lit ''abc123 msg''))
     = \<lparr>printed = [lit ''Total insertions: 0'', lit ''Total deletions: 0'', lit ''Net change: 0''],
        uncaught = None\<rparr>"
  by (rule scenarios_D_E)

section \<open>The pre-check and lines that do not match\<close>

text \<open>
  C9. The substring test before the pattern match changes nothing: for every line, kind
  and digit limit the extraction of the script is the extraction by the pattern alone, so
  the loop and the whole script without the substring tests give the same totals, the same
  printed lines and the same exception.
\<close>

theorem precheck_no_effect:
  "extractCount lim k line = extractCount_nocheck lim k line \<and>
   scan_lines lim lines totals = scan_lines_nocheck lim lines totals \<and>
   main lim r = main_nocheck lim r"
  using extractCount_nocheck_eq scan_lines_nocheck_eq main_nocheck_eq by blast

theorem precheck_no_effect_witness:
  "extractCount 4300 INSERTIONS (lit ''abc123 insert 4 insertxions(+)'')
     = extractCount_nocheck 4300 INSERTIONS (lit ''abc123 insert 4 insertxions(+)'') \<and>
   scan_lines 4300 [lit ''abc123 msg'', lit '' 1 file changed, 1 insertion(+)''] (0, 0)
     = scan_lines_nocheck 4300 [lit ''abc123 msg'', lit '' 1 file changed, 1 insertion(+)''] (0, 0) \<and>
   main 4300 (Completed 0 (lit '' 1 file changed, 1 insertion(+)''))
     = main_nocheck 4300 (Completed 0 (lit '' 1 file changed, 1 insertion(+)''))"
  by (rule precheck_no_effect)

text \<open>
  C6. A line that contains the word \<^verbatim>\<open>insertion\<close> but nowhere the shape
  \<^verbatim>\<open><N> insertion(s)(+)\<close> adds nothing to total\_insertions and raises nothing in its
  \<^verbatim>\<open>if\<close> block; the same for \<^verbatim>\<open>deletion\<close> and total\_deletions; a line that
  misses both shapes leaves both counters as they are.
\<close>

theorem no_false_positives:
  "(contains line (lit ''insertion'') \<and> \<not> stat_shape INSERTIONS line \<longrightarrow>
      extractCount lim INSERTIONS line = Inr None \<and>
      (\<forall>ti' td'. scan_line lim line (ti, td) = Inr (ti', td') \<longrightarrow> ti' = ti)) \<and>
   (contains line (lit ''deletion'') \<and> \<not> stat_shape DELETIONS line \<longrightarrow>
      extractCount lim DELETIONS line = Inr None \<and>
      (\<forall>ti' td'. scan_line lim line (ti, td) = Inr (ti', td') \<longrightarrow> td' = td)) \<and>
   (\<not> stat_shape INSERTIONS line \<and> \<not> stat_shape DELETIONS line \<longrightarrow>
      scan_line lim line (ti, td) = Inr (ti, td))"
proof -
  have none: "extractCount lim k line = Inr None" if "\<not> stat_shape k line" for k
  proof -
    from that have "re_search (pattern k) line = None"
      by (simp add: stat_shape_iff)
    then show ?thesis
      by (simp add: extractCount_def)
  qed
  show ?thesis
    by (auto simp: none split: sum.splits)
qed

theorem no_false_positives_witness:
  "contains (lit ''no insertion here, 3 deletion (-)'') (lit ''insertion'') \<and>
   \<not> stat_shape INSERTIONS (lit ''no insertion here, 3 deletion (-)'') \<and>
   contains (lit ''no insertion here, 3 deletion (-)'') (lit ''deletion'') \<and>
   \<not> stat_shape DELETIONS (lit ''no insertion here, 3 deletion (-)'') \<and>
   extractCount 4300 INSERTIONS (lit ''no insertion here, 3 deletion (-)'') = Inr None \<and>
   extractCount 4300 DELETIONS (lit ''no insertion here, 3 deletion (-)'') = Inr None \<and>
   scan_line 4300 (lit ''no insertion here, 3 deletion (-)'') (7, 9) = Inr (7, 9)"
proof -
  let ?l = "lit ''no insertion here, 3 deletion (-)''"
  have c: "contains ?l (lit ''insertion'')" "contains ?l (lit ''deletion'')"
    by (simp_all add: lit_def)
  have n: "\<not> stat_shape INSERTIONS ?l" "\<not> stat_shape DELETIONS ?l"
    by (simp_all add: stat_shape_iff lit_def chars_def unicode_decimal_low unicode_space_def)
  from no_false_positives [of ?l 4300 7 9] c n show ?thesis
    by blast
qed

section \<open>The summary\<close>

lemma digits10_range: "\<forall>c \<in> set (digits10 n). 48 \<le> c \<and> c \<le> 57"
proof (induction n rule: digits10.induct)
  case (1 n)
  show ?case
  proof (cases "n < 10")
    case True
    then show ?thesis by (simp add: digits10_small)
  next
    case False
    with 1 have "\<forall>c \<in> set (digits10 (n div 10)). 48 \<le> c \<and> c \<le> 57" by simp
    moreover have "n mod 10 < 10" by simp
    ultimately show ?thesis
      using False by (auto simp: digits10_large)
  qed
qed

lemma py_str_no_newline: "10 \<notin> set (py_str n)"
  using digits10_range [of "nat n"] digits10_range [of "nat (- n)"]
  by (auto simp: py_str_def)

lemma lit_label_no_newline:
  "10 \<notin> set (lit ''Total insertions: '')"
  "10 \<notin> set (lit ''Total deletions: '')"
  "10 \<notin> set (lit ''Net change: '')"
  by (simp_all add: lit_def)

lemma report_success:
  assumes "uncaught (report lim (ti, td)) = None"
  shows "report lim (ti, td) =
    \<lparr>printed = [lit ''Total insertions: '' @ py_str ti, lit ''Total deletions: '' @ py_str td,
                lit ''Net change: '' @ py_str (ti - td)],
     uncaught = None\<rparr>"
  using assms
  by (auto simp: report_def format_int_def split: if_splits)

lemma main_success:
  assumes "uncaught (main lim r) = None"
  shows "\<exists>returncode stdout ti td. r = Completed returncode stdout \<and>
           aggregate lim (split_newline stdout) = Inr (ti, td) \<and>
           main lim r = report lim (ti, td)"
proof (cases r)
  case (Raised e)
  with assms show ?thesis by simp
next
  case (Completed returncode stdout)
  show ?thesis
  proof (cases "aggregate lim (split_newline stdout)")
    case (Inl e)
    with assms Completed show ?thesis by (simp add: summarise_def)
  next
    case (Inr totals)
    obtain ti td where "totals = (ti, td)" by (cases totals)
    with Inr Completed show ?thesis by (simp add: summarise_def)
  qed
qed

text \<open>
  C3. When the script ends without an exception, git was started and returned, the loop
  ended with totals \<open>(ti, td)\<close>, and standard output holds exactly three lines, none with
  a newline inside: \<^verbatim>\<open>Total insertions: \<close> and \<open>ti\<close>, \<^verbatim>\<open>Total deletions: \<close> and
  \<open>td\<close>, \<^verbatim>\<open>Net change: \<close> and \<open>ti - td\<close>, in this order. The net change can be negative:
  ten deletions and no insertion print \<^verbatim>\<open>Net change: -10\<close>.
\<close>

theorem summary_on_success:
  "(uncaught (main lim r) = None \<longrightarrow>
      (\<exists>returncode stdout ti td.
         r = Completed returncode stdout \<and>
         aggregate lim (split_newline stdout) = Inr (ti, td) \<and>
         printed (main lim r) =
           [lit ''Total insertions: '' @ py_str ti, lit ''Total deletions: '' @ py_str td,
            lit ''Net change: '' @ py_str (ti - td)] \<and>
         list_all (\<lambda>l. 10 \<notin> set l) (printed (main lim r)))) \<and>
   main lim (Completed rc (lit ''abc123 msg'' @ [10] @ lit '' 3 files changed, 10 deletions(-)''))
     = \<lparr>printed = [lit ''Total insertions: 0'', lit ''Total deletions: 10'',
                   lit ''Net change: -10''],
        uncaught = None\<rparr>"
proof (intro conjI impI)
  assume ok: "uncaught (main lim r) = None"
  from main_success [OF ok] obtain returncode stdout ti td
    where r: "r = Completed returncode stdout"
      and a: "aggregate lim (split_newline stdout) = Inr (ti, td)"
      and m: "main lim r = report lim (ti, td)" by blast
  from ok m have "uncaught (report lim (ti, td)) = None" by simp
  from report_success [OF this] m
  have p: "printed (main lim r) =
      [lit ''Total insertions: '' @ py_str ti, lit ''Total deletions: '' @ py_str td,
       lit ''Net change: '' @ py_str (ti - td)]" by simp
  have "list_all (\<lambda>l. 10 \<notin> set l) (printed (main lim r))"
    unfolding p by (simp add: py_str_no_newline lit_label_no_newline)
  with r a p show "\<exists>returncode stdout ti td.
         r = Completed returncode stdout \<and>
         aggregate lim (split_newline stdout) = Inr (ti, td) \<and>
         printed (main lim r) =
           [lit ''Total insertions: '' @ py_str ti, lit ''Total deletions: '' @ py_str td,
            lit ''Net change: '' @ py_str (ti - td)] \<and>
         list_all (\<lambda>l. 10 \<notin> set l) (printed (main lim r))" by blast
next
  show "main lim (Completed rc (lit ''abc123 msg'' @ [10] @ lit '' 3 files changed, 10 deletions(-)''))
     = \<lparr>printed = [lit ''Total insertions: 0'', lit ''Total deletions: 10'',
                   lit ''Net change: -10''],
        uncaught = None\<rparr>"
    by (simp add: run_simps)
qed

theorem summary_on_success_witness:
  "uncaught (main 4300 (Completed 0 (lit '' 2 files changed, 12 insertions(+), 40 deletions(-)'')))
     = None \<and>
   aggregate 4300 (split_newline (lit '' 2 files changed, 12 insertions(+), 40 deletions(-)''))
     = Inr (12, 40) \<and>
   printed (main 4300 (Completed 0 (lit '' 2 files changed, 12 insertions(+), 40 deletions(-)'')))
     = [lit ''Total insertions: 12'', lit ''Total deletions: 40'', lit ''Net change: -28'']"
proof -
  let ?r = "Completed 0 (lit '' 2 files changed, 12 insertions(+), 40 deletions(-)'')"
  have ok: "uncaught (main 4300 ?r) = None"
    by (simp add: run_simps)
  have a: "aggregate 4300 (split_newline (lit '' 2 files changed, 12 insertions(+), 40 deletions(-)''))
     = Inr (12, 40)"
    by (simp add: run_simps)
  from summary_on_success [of 4300 ?r 0] ok a show ?thesis
    by (auto simp: py_str_def lit_def digits10_small digits10_large)
qed

text \<open>
  C1, as the script has it. When \<^verbatim>\<open>subprocess.run\<close> raises (git is missing or cannot
  be executed), nothing is printed and the exception ends the process with exit status 1.
  When git starts and fails by its exit status, as it does outside a repository, the
  script never looks at that status: it behaves as after a successful run with the same
  standard output.
\<close>

theorem invocation_failure:
  "main lim (Raised e) = \<lparr>printed = [], uncaught = Some e\<rparr> \<and>
   exit_status (main lim (Raised e)) = 1 \<and>
   main lim (Completed returncode stdout) = main lim (Completed 0 stdout)"
  by (simp add: exit_status_def)

theorem invocation_failure_witness:
  "main 4300 (Raised FileNotFoundError) = \<lparr>printed = [], uncaught = Some FileNotFoundError\<rparr> \<and>
   exit_status (main 4300 (Raised FileNotFoundError)) = 1 \<and>
   main 4300 (Completed 128 []) = main 4300 (Completed 0 [])"
  by (rule invocation_failure)

text \<open>
  C1, as the claim states it, fails outside a repository: git exits with status 128 and
  empty standard output, and the script prints the summary with three zeros and ends with
  exit status 0.
\<close>

theorem unchecked_returncode_counterexample:
  "invocation_failed (Completed 128 []) \<and>
   exit_status (main 4300 (Completed 128 [])) = 0 \<and>
   printed (main 4300 (Completed 128 []))
     = [lit ''Total insertions: 0'', lit ''Total deletions: 0'', lit ''Net change: 0'']"
  by (simp add: run_simps exit_status_def)

text \<open>
  C7. The two extractions of a line do not exclude each other. The shortstat line with
  both phrases adds to both totals; a line with one phrase adds to that total only; the
  commit header adds to neither.
\<close>

theorem kinds_independent:
  "extractCount lim INSERTIONS (lit '' 1 file changed, 5 insertions(+), 2 deletions(-)'') = Inr (Some 5) \<and>
   extractCount lim DELETIONS (lit '' 1 file changed, 5 insertions(+), 2 deletions(-)'') = Inr (Some 2) \<and>
   scan_line lim (lit '' 1 file changed, 5 insertions(+), 2 deletions(-)'') (ti, td) = Inr (ti + 5, td + 2) \<and>
   extractCount lim INSERTIONS (lit '' 1 file changed, 1 insertion(+)'') = Inr (Some 1) \<and>
   extractCount lim DELETIONS (lit '' 1 file changed, 1 insertion(+)'') = Inr None \<and>
   scan_line lim (lit '' 1 file changed, 1 insertion(+)'') (ti, td) = Inr (ti + 1, td) \<and>
   extractCount lim INSERTIONS (lit '' 3 files changed, 10 deletions(-)'') = Inr None \<and>
   extractCount lim DELETIONS (lit '' 3 files changed, 10 deletions(-)'') = Inr (Some 10) \<and>
   scan_line lim (lit '' 3 files changed, 10 deletions(-)'') (ti, td) = Inr (ti, td + 10) \<and>
   extractCount lim INSERTIONS (lit ''abc123 msg'') = Inr None \<and>
   extractCount lim DELETIONS (lit ''abc123 msg'') = Inr None \<and>
   scan_line lim (lit ''abc123 msg'') (ti, td) = Inr (ti, td)"
  by (simp add: run_simps)

theorem kinds_independent_witness:
  "extractCount 4300 INSERTIONS (lit '' 1 file changed, 5 insertions(+), 2 deletions(-)'') = Inr (Some 5) \<and>
   extractCount 4300 DELETIONS (lit '' 1 file changed, 5 insertions(+), 2 deletions(-)'') = Inr (Some 2) \<and>
   scan_line 4300 (lit '' 1 file changed, 5 insertions(+), 2 deletions(-)'') (100, 200) = Inr (100 + 5, 200 + 2) \<and>
   extractCount 4300 INSERTIONS (lit '' 1 file changed, 1 insertion(+)'') = Inr (Some 1) \<and>
   extractCount 4300 DELETIONS (lit '' 1 file changed, 1 insertion(+)'') = Inr None \<and>
   scan_line 4300 (lit '' 1 file changed, 1 insertion(+)'') (100, 200) = Inr (100 + 1, 200) \<and>
   extractCount 4300 INSERTIONS (lit '' 3 files changed, 10 deletions(-)'') = Inr None \<and>
   extractCount 4300 DELETIONS (lit '' 3 files changed, 10 deletions(-)'') = Inr (Some 10) \<and>
   scan_line 4300 (lit '' 3 files changed, 10 deletions(-)'') (100, 200) = Inr (100, 200 + 10) \<and>
   extractCount 4300 INSERTIONS (lit ''abc123 msg'') = Inr None \<and>
   extractCount 4300 DELETIONS (lit ''abc123 msg'') = Inr None \<and>
   scan_line 4300 (lit ''abc123 msg'') (100, 200) = Inr (100, 200)"
  by (rule kinds_independent)

end
